theory Spec2Isabelle
  imports Complex_Main
begin

section \<open>Conjugate posteriors of a Gaussian with known sigma\<close>

text \<open>
  A shallow embedding of
  \<^verbatim>\<open>tensorflow/contrib/distributions/python/ops/gaussian_conjugate_posteriors.py\<close>:
  the two functions \<^verbatim>\<open>known_sigma_posterior\<close> and \<^verbatim>\<open>known_sigma_predictive\<close>.

  Both functions are straight-line code: two checks that raise \<^verbatim>\<open>TypeError\<close>, then a
  fixed sequence of calls into the tensor runtime (\<^verbatim>\<open>math_ops.cast\<close>,
  \<^verbatim>\<open>math_ops.square\<close>, \<^verbatim>\<open>math_ops.sqrt\<close> and the overloaded operators
  \<^verbatim>\<open>+\<close>, \<^verbatim>\<open>*\<close>, \<^verbatim>\<open>/\<close> of a tensor). The runtime and the class
  \<^verbatim>\<open>Gaussian\<close> are imported by the file and are not part of it, so the embedding takes
  the runtime as a parameter: a record of operations over a type \<open>'t\<close> of tensors and a
  type \<open>'d\<close> of element types. Whatever is proved of the functions for every such
  record holds for the floating-point runtime as well. The numeric facts (a concrete example,
  an inequality, the case of no observations) are proved for one runtime, \<open>exact_ops\<close>,
  that computes each element in exact real arithmetic.
\<close>

subsection \<open>Python values\<close>

text \<open>A Python number written in the code: \<^verbatim>\<open>1\<close> is an int, \<^verbatim>\<open>1.0\<close> a float.\<close>

datatype py_scalar = PyInt int | PyFloat real

text \<open>The exceptions the file raises: \<^verbatim>\<open>TypeError\<close> with its message.\<close>

datatype py_error = TypeError string

text \<open>
  A \<^verbatim>\<open>Gaussian\<close> object, as far as the file uses it: the attributes \<^verbatim>\<open>mu\<close> and
  \<^verbatim>\<open>sigma\<close> it reads from the prior, and the two arguments \<^verbatim>\<open>mu=\<close>, \<^verbatim>\<open>sigma=\<close>
  it gives the constructor.
\<close>

record 't Gaussian =
  mu :: 't
  sigma :: 't

text \<open>
  What a caller may pass as \<^verbatim>\<open>prior\<close>: a \<^verbatim>\<open>Gaussian\<close>, or any other object (of
  a type \<open>'o\<close> left open). \<^verbatim>\<open>isinstance(prior, Gaussian)\<close> tells them apart.
\<close>

datatype ('t, 'o) py_object = GaussianObj "'t Gaussian" | OtherObj 'o

fun isinstance_Gaussian :: "('t, 'o) py_object \<Rightarrow> bool" where
  "isinstance_Gaussian (GaussianObj g) = True"
| "isinstance_Gaussian (OtherObj x) = False"

subsection \<open>The tensor runtime, as a parameter\<close>

text \<open>
  The operations of the runtime that the file calls. \<open>dtype_of\<close> is the attribute
  \<^verbatim>\<open>.dtype\<close> of a tensor and \<open>dtype_str\<close> what \<^verbatim>\<open>%s\<close> prints for an element
  type; \<open>add\<close>, \<open>mul\<close> and \<open>truediv\<close> are the tensor operators \<^verbatim>\<open>+\<close>,
  \<^verbatim>\<open>*\<close> and \<^verbatim>\<open>/\<close> (the file imports \<^verbatim>\<open>division\<close> from
  \<^verbatim>\<open>__future__\<close>), and \<open>rtruediv c x\<close> is \<^verbatim>\<open>c / x\<close> for a Python number
  \<open>c\<close> and a tensor \<open>x\<close>.
\<close>

record ('d, 't) math_ops =
  dtype_of :: "'t \<Rightarrow> 'd"
  dtype_str :: "'d \<Rightarrow> string"
  cast :: "'t \<Rightarrow> 'd \<Rightarrow> 't"
  square :: "'t \<Rightarrow> 't"
  sqrt :: "'t \<Rightarrow> 't"
  add :: "'t \<Rightarrow> 't \<Rightarrow> 't"
  mul :: "'t \<Rightarrow> 't \<Rightarrow> 't"
  truediv :: "'t \<Rightarrow> 't \<Rightarrow> 't"
  rtruediv :: "py_scalar \<Rightarrow> 't \<Rightarrow> 't"

text \<open>
  Modelled from the spec: the attribute \<^verbatim>\<open>dtype\<close> of a \<^verbatim>\<open>Gaussian\<close> (the class is
  not in the file). The spec describes a Gaussian value as one whose mean and standard
  deviation have one shared element type, meant here: the element type of \<^verbatim>\<open>mu\<close>.
\<close>

definition Gaussian_dtype :: "('d, 't) math_ops \<Rightarrow> 't Gaussian \<Rightarrow> 'd" where
  "Gaussian_dtype ops g = dtype_of ops (mu g)"

subsection \<open>known\_sigma\_posterior and known\_sigma\_predictive\<close>

text \<open>
  The functions, statement by statement. A raised exception is the result \<open>Inl\<close>, a
  returned \<^verbatim>\<open>Gaussian\<close> the result \<open>Inr\<close>. The message of the second
  \<^verbatim>\<open>TypeError\<close> is
  \<^verbatim>\<open>"Observation sum s.dtype does not match prior dtype: %s vs. %s" % (s.dtype, prior.dtype)\<close>.
  The parameter \<^verbatim>\<open>sigma\<close> has the name of the attribute \<^verbatim>\<open>prior.sigma\<close>; the
  attribute is written \<open>Gaussian.sigma\<close> where both occur.
\<close>

definition known_sigma_posterior ::
  "('d, 't) math_ops \<Rightarrow> ('t, 'o) py_object \<Rightarrow> 't \<Rightarrow> 't \<Rightarrow> 't \<Rightarrow> py_error + 't Gaussian"
where
  "known_sigma_posterior ops prior sigma s n =
     (case prior of
        OtherObj x \<Rightarrow> Inl (TypeError ''Expected prior to be an instance of type Gaussian'')
      | GaussianObj g \<Rightarrow>
          if dtype_of ops s \<noteq> Gaussian_dtype ops g
          then Inl (TypeError
                 (''Observation sum s.dtype does not match prior dtype: ''
                    @ dtype_str ops (dtype_of ops s) @ '' vs. ''
                    @ dtype_str ops (Gaussian_dtype ops g)))
          else
            let n = cast ops n (Gaussian_dtype ops g);
                sigma0_2 = square ops (Gaussian.sigma g);
                sigma_2 = square ops sigma;
                sigmap_2 = rtruediv ops (PyFloat 1)
                             (add ops (rtruediv ops (PyInt 1) sigma0_2)
                                      (truediv ops n sigma_2))
            in Inr \<lparr> mu = mul ops (add ops (truediv ops (Gaussian.mu g) sigma0_2)
                                           (truediv ops s sigma_2))
                                  sigmap_2,
                     sigma = sqrt ops sigmap_2 \<rparr>)"
  for sigma

definition known_sigma_predictive ::
  "('d, 't) math_ops \<Rightarrow> ('t, 'o) py_object \<Rightarrow> 't \<Rightarrow> 't \<Rightarrow> 't \<Rightarrow> py_error + 't Gaussian"
where
  "known_sigma_predictive ops prior sigma s n =
     (case prior of
        OtherObj x \<Rightarrow> Inl (TypeError ''Expected prior to be an instance of type Gaussian'')
      | GaussianObj g \<Rightarrow>
          if dtype_of ops s \<noteq> Gaussian_dtype ops g
          then Inl (TypeError
                 (''Observation sum s.dtype does not match prior dtype: ''
                    @ dtype_str ops (dtype_of ops s) @ '' vs. ''
                    @ dtype_str ops (Gaussian_dtype ops g)))
          else
            let n = cast ops n (Gaussian_dtype ops g);
                sigma0_2 = square ops (Gaussian.sigma g);
                sigma_2 = square ops sigma;
                sigmap_2 = rtruediv ops (PyFloat 1)
                             (add ops (rtruediv ops (PyInt 1) sigma0_2)
                                      (truediv ops n sigma_2))
            in Inr \<lparr> mu = mul ops (add ops (truediv ops (Gaussian.mu g) sigma0_2)
                                           (truediv ops s sigma_2))
                                  sigmap_2,
                     sigma = sqrt ops (add ops sigmap_2 sigma_2) \<rparr>)"
  for sigma

subsection \<open>A runtime in exact arithmetic\<close>

text \<open>
  Modelled from the spec: the element types of the runtime (their declaration is not in
  the file). The spec names 32-bit and 64-bit floating types and integer types.
\<close>

datatype DType = float32 | float64 | int32 | int64

fun DType_str :: "DType \<Rightarrow> string" where
  "DType_str float32 = ''float32''"
| "DType_str float64 = ''float64''"
| "DType_str int32 = ''int32''"
| "DType_str int64 = ''int64''"

text \<open>
  Modelled from the spec: a tensor of the runtime (not in the file), as its element type
  and its elements. The elements are given by position \<open>'i\<close> in the shape that all
  arguments of one call broadcast to, so a scalar is a constant function and an operation
  on broadcast arguments works position by position. The elements are real numbers:
  rounding, infinities and NaN of the floating-point types are not modelled.
\<close>

record 'i Tensor =
  dtype :: DType
  elems :: "'i \<Rightarrow> real"

fun py_scalar_value :: "py_scalar \<Rightarrow> real" where
  "py_scalar_value (PyInt k) = of_int k"
| "py_scalar_value (PyFloat x) = x"

text \<open>
  Modelled from the spec: the operations of the runtime on such tensors, elementwise
  (square, square root, add, multiply, divide, and the cast of a count to another element
  type, which keeps its value). A binary operation gives its result the element type of
  its tensor argument (the left one of two).
\<close>

definition exact_ops :: "(DType, 'i Tensor) math_ops" where
  "exact_ops =
     \<lparr> dtype_of = dtype,
       dtype_str = DType_str,
       cast = (\<lambda>x d. \<lparr> dtype = d, elems = elems x \<rparr>),
       square = (\<lambda>x. \<lparr> dtype = dtype x, elems = (\<lambda>i. elems x i * elems x i) \<rparr>),
       sqrt = (\<lambda>x. \<lparr> dtype = dtype x, elems = (\<lambda>i. NthRoot.sqrt (elems x i)) \<rparr>),
       add = (\<lambda>x y. \<lparr> dtype = dtype x, elems = (\<lambda>i. elems x i + elems y i) \<rparr>),
       mul = (\<lambda>x y. \<lparr> dtype = dtype x, elems = (\<lambda>i. elems x i * elems y i) \<rparr>),
       truediv = (\<lambda>x y. \<lparr> dtype = dtype x, elems = (\<lambda>i. elems x i / elems y i) \<rparr>),
       rtruediv = (\<lambda>c y. \<lparr> dtype = dtype y, elems = (\<lambda>i. py_scalar_value c / elems y i) \<rparr>) \<rparr>"

text \<open>A scalar tensor: the same element at every position.\<close>

definition scalar :: "DType \<Rightarrow> real \<Rightarrow> 'i Tensor" where
  "scalar d x = \<lparr> dtype = d, elems = (\<lambda>i. x) \<rparr>"

section \<open>Facts about the two functions\<close>

subsection \<open>The results in exact arithmetic, element by element\<close>



lemma exact_dtype_match:
  "dtype_of exact_ops s = Gaussian_dtype exact_ops g \<longleftrightarrow> dtype s = dtype (Gaussian.mu g)"
  by (simp add: exact_ops_def Gaussian_dtype_def)

subsection \<open>The formulas\<close>

text \<open>
  C1. When the prior is a Gaussian and \<open>s\<close> has the prior's element type,
  \<open>known_sigma_posterior\<close> returns a Gaussian whose \<open>sigma\<close> is the square root of
  \<open>sigmap_sq\<close> and whose \<open>mu\<close> is \<open>(prior.mu / sigma0_sq + s / sigma_sq) * sigmap_sq\<close>,
  where \<open>sigma0_sq\<close> is the square of \<open>prior.sigma\<close>, \<open>sigma_sq\<close> the square of
  \<open>sigma\<close>, \<open>n\<close> is cast to the prior's element type first, and \<open>sigmap_sq\<close> is
  \<open>1 / (1 / sigma0_sq + n / sigma_sq)\<close>. Every operation is the runtime's own (elementwise,
  with broadcasting), whichever runtime it is; \<open>sigma\<close> and \<open>n\<close> are not restricted.
\<close>

theorem known_sigma_posterior_formula:
  fixes sigma
  assumes "dtype_of ops s = Gaussian_dtype ops g"
    and "n_cast = cast ops n (Gaussian_dtype ops g)"
    and "sigma0_sq = square ops (Gaussian.sigma g)"
    and "sigma_sq = square ops sigma"
    and "sigmap_sq = rtruediv ops (PyFloat 1)
                       (add ops (rtruediv ops (PyInt 1) sigma0_sq)
                                (truediv ops n_cast sigma_sq))"
  shows "\<exists>p. known_sigma_posterior ops (GaussianObj g) sigma s n = Inr p
           \<and> Gaussian.sigma p = sqrt ops sigmap_sq
           \<and> Gaussian.mu p = mul ops (add ops (truediv ops (Gaussian.mu g) sigma0_sq)
                                           (truediv ops s sigma_sq))
                                  sigmap_sq"
  using assms by (simp add: known_sigma_posterior_def Let_def)

text \<open>
  In exact arithmetic, for the prior \<open>(3, 2)\<close>, \<open>sigma = 4\<close>, \<open>s = 8\<close>, \<open>n = 5\<close>:
  \<open>sigmap_sq = 1 / (1/4 + 5/16) = 16/9\<close> and the mean is \<open>(3/4 + 8/16) * 16/9 = 20/9\<close>.
\<close>

theorem known_sigma_posterior_formula_witness:
  "\<exists>p. known_sigma_posterior exact_ops
          (GaussianObj \<lparr> mu = scalar float64 3, sigma = scalar float64 2 \<rparr>)
          (scalar float64 4) (scalar float64 8) (scalar int64 5 :: unit Tensor) = Inr p
     \<and> Gaussian.sigma p = scalar float64 (NthRoot.sqrt (16 / 9))
     \<and> Gaussian.mu p = scalar float64 (20 / 9)"
  using known_sigma_posterior_formula [of exact_ops "scalar float64 8"
      "\<lparr> mu = scalar float64 3, sigma = scalar float64 2 \<rparr>" _ "scalar int64 5" _ _
      "scalar float64 4" "_ :: unit Tensor", OF _ refl refl refl refl]
  by (simp add: exact_ops_def scalar_def Gaussian_dtype_def)

text \<open>
  C2. Under the same conditions \<open>known_sigma_predictive\<close> returns a Gaussian whose
  \<open>mu\<close> is given by the same expression as the posterior's, and whose \<open>sigma\<close> is the
  square root of \<open>sigmap_sq + sigma_sq\<close>: the variance of the posterior of the mean plus
  the variance of an observation.
\<close>

theorem known_sigma_predictive_formula:
  fixes sigma
  assumes "dtype_of ops s = Gaussian_dtype ops g"
    and "n_cast = cast ops n (Gaussian_dtype ops g)"
    and "sigma0_sq = square ops (Gaussian.sigma g)"
    and "sigma_sq = square ops sigma"
    and "sigmap_sq = rtruediv ops (PyFloat 1)
                       (add ops (rtruediv ops (PyInt 1) sigma0_sq)
                                (truediv ops n_cast sigma_sq))"
  shows "\<exists>q. known_sigma_predictive ops (GaussianObj g) sigma s n = Inr q
           \<and> Gaussian.sigma q = sqrt ops (add ops sigmap_sq sigma_sq)
           \<and> Gaussian.mu q = mul ops (add ops (truediv ops (Gaussian.mu g) sigma0_sq)
                                           (truediv ops s sigma_sq))
                                  sigmap_sq"
  using assms by (simp add: known_sigma_predictive_def Let_def)

text \<open>
  In exact arithmetic, for the prior \<open>(1, 1)\<close>, \<open>sigma = 2\<close>, \<open>s = 6\<close>, \<open>n = 4\<close>:
  \<open>sigmap_sq = 1 / (1 + 4/4) = 1/2\<close>, the mean is \<open>(1 + 6/4) * 1/2 = 5/4\<close> and the
  variance \<open>1/2 + 4 = 9/2\<close>.
\<close>

theorem known_sigma_predictive_formula_witness:
  "\<exists>q. known_sigma_predictive exact_ops
          (GaussianObj \<lparr> mu = scalar float32 1, sigma = scalar float32 1 \<rparr>)
          (scalar float32 2) (scalar float32 6) (scalar int32 4 :: unit Tensor) = Inr q
     \<and> Gaussian.sigma q = scalar float32 (NthRoot.sqrt (9 / 2))
     \<and> Gaussian.mu q = scalar float32 (5 / 4)"
  using known_sigma_predictive_formula [of exact_ops "scalar float32 6"
      "\<lparr> mu = scalar float32 1, sigma = scalar float32 1 \<rparr>" _ "scalar int32 4" _ _
      "scalar float32 2" "_ :: unit Tensor", OF _ refl refl refl refl]
  by (simp add: exact_ops_def scalar_def Gaussian_dtype_def)

subsection \<open>The example with ten observations\<close>

text \<open>
  C3, as the claim states it: for the prior \<open>(0, 1)\<close>, \<open>sigma = 1\<close>, \<open>s = 10\<close>,
  \<open>n = 10\<close> the posterior has mean 5 and standard deviation \<open>sqrt (1/11)\<close>, and the
  predictive has mean 5 and standard deviation \<open>sqrt (1/11 + 1)\<close>. This does not hold:
  the mean is \<open>(0/1 + 10/1) * (1/11) = 10/11\<close>.
\<close>

theorem example_mean_is_not_5:
  "\<not> (elems (Gaussian.mu (projr (known_sigma_posterior exact_ops
           (GaussianObj \<lparr> mu = scalar float32 0, sigma = scalar float32 1 \<rparr>)
           (scalar float32 1) (scalar float32 10) (scalar int32 10)))) () = 5
      \<and> elems (Gaussian.sigma (projr (known_sigma_posterior exact_ops
           (GaussianObj \<lparr> mu = scalar float32 0, sigma = scalar float32 1 \<rparr>)
           (scalar float32 1) (scalar float32 10) (scalar int32 10)))) ()
          = NthRoot.sqrt (1 / 11)
      \<and> elems (Gaussian.mu (projr (known_sigma_predictive exact_ops
           (GaussianObj \<lparr> mu = scalar float32 0, sigma = scalar float32 1 \<rparr>)
           (scalar float32 1) (scalar float32 10) (scalar int32 10)))) () = 5
      \<and> elems (Gaussian.sigma (projr (known_sigma_predictive exact_ops
           (GaussianObj \<lparr> mu = scalar float32 0, sigma = scalar float32 1 \<rparr>)
           (scalar float32 1) (scalar float32 10) (scalar int32 10)))) ()
          = NthRoot.sqrt (1 / 11 + 1))"
  by (simp add: known_sigma_posterior_def known_sigma_predictive_def Let_def
        exact_ops_def scalar_def Gaussian_dtype_def)

text \<open>
  C3, amended: on that input the posterior has mean \<open>10/11\<close> and standard deviation
  \<open>sqrt (1/11)\<close>, and the predictive has mean \<open>10/11\<close> and standard deviation
  \<open>sqrt (1/11 + 1)\<close> (in exact arithmetic).
\<close>

theorem example_posterior_and_predictive:
  "known_sigma_posterior exact_ops
      (GaussianObj \<lparr> mu = scalar float32 0, sigma = scalar float32 1 \<rparr>)
      (scalar float32 1) (scalar float32 10) (scalar int32 10 :: unit Tensor)
    = Inr \<lparr> mu = scalar float32 (10 / 11),
            sigma = scalar float32 (NthRoot.sqrt (1 / 11)) \<rparr>
   \<and> known_sigma_predictive exact_ops
      (GaussianObj \<lparr> mu = scalar float32 0, sigma = scalar float32 1 \<rparr>)
      (scalar float32 1) (scalar float32 10) (scalar int32 10 :: unit Tensor)
    = Inr \<lparr> mu = scalar float32 (10 / 11),
            sigma = scalar float32 (NthRoot.sqrt (1 / 11 + 1)) \<rparr>"
  by (simp add: known_sigma_posterior_def known_sigma_predictive_def Let_def
        exact_ops_def scalar_def Gaussian_dtype_def)

subsection \<open>Posterior against predictive\<close>

text \<open>
  C4. When the prior is a Gaussian and \<open>s\<close> has the prior's element type, both functions
  return, and the two results have the same \<open>mu\<close>, for every runtime.
\<close>

theorem posterior_and_predictive_same_mean:
  fixes sigma
  assumes "dtype_of ops s = Gaussian_dtype ops g"
  shows "\<exists>p q. known_sigma_posterior ops (GaussianObj g) sigma s n = Inr p
             \<and> known_sigma_predictive ops (GaussianObj g) sigma s n = Inr q
             \<and> Gaussian.mu p = Gaussian.mu q"
  using assms by (simp add: known_sigma_posterior_def known_sigma_predictive_def Let_def)

theorem posterior_and_predictive_same_mean_witness:
  "\<exists>p q. known_sigma_posterior exact_ops
            (GaussianObj \<lparr> mu = scalar float64 (-2), sigma = scalar float64 3 \<rparr>)
            (scalar float64 5) (scalar float64 7) (scalar int32 2 :: unit Tensor) = Inr p
        \<and> known_sigma_predictive exact_ops
            (GaussianObj \<lparr> mu = scalar float64 (-2), sigma = scalar float64 3 \<rparr>)
            (scalar float64 5) (scalar float64 7) (scalar int32 2) = Inr q
        \<and> Gaussian.mu p = Gaussian.mu q"
proof -
  have "dtype_of exact_ops (scalar float64 7 :: unit Tensor)
          = Gaussian_dtype exact_ops \<lparr> mu = scalar float64 (-2), sigma = scalar float64 3 \<rparr>"
    by (simp add: exact_dtype_match scalar_def)
  then show ?thesis
    by (rule posterior_and_predictive_same_mean)
qed



subsection \<open>No observations\<close>




subsection \<open>The two checks\<close>

text \<open>
  C7. When the prior is not a Gaussian, both functions raise the \<^verbatim>\<open>TypeError\<close> of the
  first check. The result is the same for every runtime and for all \<open>sigma\<close>, \<open>s\<close> and
  \<open>n\<close>: no operation of the runtime contributes to it.
\<close>

theorem not_Gaussian_prior_raises:
  fixes sigma
  assumes "\<not> isinstance_Gaussian prior"
  shows "known_sigma_posterior ops prior sigma s n
           = Inl (TypeError ''Expected prior to be an instance of type Gaussian'')
       \<and> known_sigma_predictive ops prior sigma s n
           = Inl (TypeError ''Expected prior to be an instance of type Gaussian'')"
  using assms
  by (cases prior) (simp_all add: known_sigma_posterior_def known_sigma_predictive_def)

text \<open>A pair of numbers in place of the prior.\<close>

theorem not_Gaussian_prior_raises_witness:
  "\<not> isinstance_Gaussian (OtherObj (0 :: real, 1 :: real) :: (unit Tensor, real \<times> real) py_object)
   \<and> known_sigma_posterior exact_ops (OtherObj (0 :: real, 1 :: real))
      (scalar float32 1) (scalar float32 10) (scalar int32 10 :: unit Tensor)
     = Inl (TypeError ''Expected prior to be an instance of type Gaussian'')
   \<and> known_sigma_predictive exact_ops (OtherObj (0 :: real, 1 :: real))
      (scalar float32 1) (scalar float32 10) (scalar int32 10 :: unit Tensor)
     = Inl (TypeError ''Expected prior to be an instance of type Gaussian'')"
proof -
  have h: "\<not> isinstance_Gaussian
              (OtherObj (0 :: real, 1 :: real) :: (unit Tensor, real \<times> real) py_object)"
    by simp
  show ?thesis
    using h not_Gaussian_prior_raises [OF h] by blast
qed

text \<open>
  C8. When the prior is a Gaussian and the element type of \<open>s\<close> is not the prior's, both
  functions raise the \<^verbatim>\<open>TypeError\<close> of the second check, and its message holds what the
  runtime prints for the element type of \<open>s\<close> and for the prior's, in this order. Nothing
  but the two element types contributes to the result.
\<close>

theorem dtype_mismatch_raises:
  fixes sigma
  assumes "dtype_of ops s \<noteq> Gaussian_dtype ops g"
  shows "known_sigma_posterior ops (GaussianObj g) sigma s n
           = Inl (TypeError (''Observation sum s.dtype does not match prior dtype: ''
                               @ dtype_str ops (dtype_of ops s) @ '' vs. ''
                               @ dtype_str ops (Gaussian_dtype ops g)))
       \<and> known_sigma_predictive ops (GaussianObj g) sigma s n
           = Inl (TypeError (''Observation sum s.dtype does not match prior dtype: ''
                               @ dtype_str ops (dtype_of ops s) @ '' vs. ''
                               @ dtype_str ops (Gaussian_dtype ops g)))"
  using assms
  by (simp add: known_sigma_posterior_def known_sigma_predictive_def)

text \<open>A prior of 64-bit floating type with \<open>s\<close> of 32-bit floating type.\<close>

theorem dtype_mismatch_raises_witness:
  "known_sigma_posterior exact_ops
      (GaussianObj \<lparr> mu = scalar float64 0, sigma = scalar float64 1 \<rparr>)
      (scalar float64 1) (scalar float32 10) (scalar int32 10 :: unit Tensor)
     = Inl (TypeError
         ''Observation sum s.dtype does not match prior dtype: float32 vs. float64'')
   \<and> known_sigma_predictive exact_ops
      (GaussianObj \<lparr> mu = scalar float64 0, sigma = scalar float64 1 \<rparr>)
      (scalar float64 1) (scalar float32 10) (scalar int32 10 :: unit Tensor)
     = Inl (TypeError
         ''Observation sum s.dtype does not match prior dtype: float32 vs. float64'')"
  using dtype_mismatch_raises [of exact_ops "scalar float32 10"
      "\<lparr> mu = scalar float64 0, sigma = scalar float64 1 \<rparr>"
      "scalar float64 1" "scalar int32 10 :: unit Tensor"]
  by (simp add: exact_ops_def scalar_def Gaussian_dtype_def)



text \<open>
  C10. The check of the prior comes first. With a prior that is not a Gaussian, both
  functions raise the first \<^verbatim>\<open>TypeError\<close>, whatever the element type of \<open>s\<close> is. And
  when either function raises the second \<^verbatim>\<open>TypeError\<close> (its message, for any two
  element types), the prior is a Gaussian.
\<close>

theorem prior_check_before_dtype_check:
  fixes sigma
  shows "known_sigma_posterior ops (OtherObj x) sigma s n
           = Inl (TypeError ''Expected prior to be an instance of type Gaussian'')
       \<and> known_sigma_predictive ops (OtherObj x) sigma s n
           = Inl (TypeError ''Expected prior to be an instance of type Gaussian'')
       \<and> (known_sigma_posterior ops prior sigma s n
            = Inl (TypeError (''Observation sum s.dtype does not match prior dtype: ''
                                @ dtype_str ops a @ '' vs. '' @ dtype_str ops b))
          \<or> known_sigma_predictive ops prior sigma s n
            = Inl (TypeError (''Observation sum s.dtype does not match prior dtype: ''
                                @ dtype_str ops a @ '' vs. '' @ dtype_str ops b))
          \<longrightarrow> isinstance_Gaussian prior)"
  by (cases prior)
     (simp_all add: known_sigma_posterior_def known_sigma_predictive_def)

text \<open>
  A tensor of 64-bit floating type in place of the prior, with \<open>s\<close> of 32-bit floating
  type: the first \<^verbatim>\<open>TypeError\<close>. A Gaussian of 64-bit floating type with the same
  \<open>s\<close>: the second.
\<close>

theorem prior_check_before_dtype_check_witness:
  "dtype_of exact_ops (scalar float32 10 :: unit Tensor)
     \<noteq> dtype_of exact_ops (scalar float64 0 :: unit Tensor)
   \<and> known_sigma_posterior exact_ops (OtherObj (scalar float64 0 :: unit Tensor))
        (scalar float64 1) (scalar float32 10) (scalar int32 10 :: unit Tensor)
       = Inl (TypeError ''Expected prior to be an instance of type Gaussian'')
   \<and> known_sigma_predictive exact_ops (OtherObj (scalar float64 0 :: unit Tensor))
        (scalar float64 1) (scalar float32 10) (scalar int32 10 :: unit Tensor)
       = Inl (TypeError ''Expected prior to be an instance of type Gaussian'')
   \<and> known_sigma_posterior exact_ops
        (GaussianObj \<lparr> mu = scalar float64 0, sigma = scalar float64 1 \<rparr>
           :: (unit Tensor, unit Tensor) py_object)
        (scalar float64 1) (scalar float32 10) (scalar int32 10)
       = Inl (TypeError
           ''Observation sum s.dtype does not match prior dtype: float32 vs. float64'')
   \<and> isinstance_Gaussian
        (GaussianObj \<lparr> mu = scalar float64 0, sigma = scalar float64 1 \<rparr>
           :: (unit Tensor, unit Tensor) py_object)"
proof -
  have d: "dtype_of exact_ops (scalar float32 10 :: unit Tensor)
             \<noteq> dtype_of exact_ops (scalar float64 0 :: unit Tensor)"
    by (simp add: exact_ops_def scalar_def)
  have e: "known_sigma_posterior exact_ops
        (GaussianObj \<lparr> mu = scalar float64 0, sigma = scalar float64 1 \<rparr>
           :: (unit Tensor, unit Tensor) py_object)
        (scalar float64 1) (scalar float32 10) (scalar int32 10)
       = Inl (TypeError
           ''Observation sum s.dtype does not match prior dtype: float32 vs. float64'')"
    by (simp add: known_sigma_posterior_def exact_ops_def scalar_def Gaussian_dtype_def)
  have e': "known_sigma_posterior exact_ops
        (GaussianObj \<lparr> mu = scalar float64 0, sigma = scalar float64 1 \<rparr>
           :: (unit Tensor, unit Tensor) py_object)
        (scalar float64 1) (scalar float32 10) (scalar int32 10)
       = Inl (TypeError (''Observation sum s.dtype does not match prior dtype: ''
                           @ dtype_str exact_ops float32 @ '' vs. ''
                           @ dtype_str (exact_ops :: (DType, unit Tensor) math_ops) float64))"
    unfolding e by (simp add: exact_ops_def)
  note t = prior_check_before_dtype_check
    [of exact_ops "scalar float64 0 :: unit Tensor" "scalar float64 1" "scalar float32 10"
        "scalar int32 10"
        "GaussianObj \<lparr> mu = scalar float64 0, sigma = scalar float64 1 \<rparr>
           :: (unit Tensor, unit Tensor) py_object" float32 float64]
  from t have "known_sigma_posterior exact_ops (OtherObj (scalar float64 0 :: unit Tensor))
        (scalar float64 1) (scalar float32 10) (scalar int32 10 :: unit Tensor)
       = Inl (TypeError ''Expected prior to be an instance of type Gaussian'')"
    by (rule conjunct1)
  moreover from t have "known_sigma_predictive exact_ops
        (OtherObj (scalar float64 0 :: unit Tensor))
        (scalar float64 1) (scalar float32 10) (scalar int32 10 :: unit Tensor)
       = Inl (TypeError ''Expected prior to be an instance of type Gaussian'')"
    by (rule conjunct2 [THEN conjunct1])
  moreover from t e' have "isinstance_Gaussian
        (GaussianObj \<lparr> mu = scalar float64 0, sigma = scalar float64 1 \<rparr>
           :: (unit Tensor, unit Tensor) py_object)"
    by blast
  ultimately show ?thesis
    using d e by blast
qed

end
